theory Spec2Isabelle
  imports Complex_Main "HOL-Library.Sublist"
begin

section \<open>Data model\<close>

text \<open>
  The TypeScript sources compute with \<^verbatim>\<open>number\<close>. The confidence of an
  opportunity and of an evaluation is a \<open>JSNum\<close>: a finite number, one of the two
  infinities or \<^verbatim>\<open>NaN\<close>, with the arithmetic, the comparisons and \<^verbatim>\<open>Math.min\<close>,
  \<^verbatim>\<open>Math.max\<close> of JavaScript on them. So is the quotient
  \<^verbatim>\<open>predictedProfit / opportunity.profitUSD\<close>, which a zero divisor takes out of the
  finite numbers. Every other \<^verbatim>\<open>number\<close> (profits, gas, prices, thresholds, the
  metrics) is a \<^typ>\<open>real\<close>: finite. Finite arithmetic is exact: rounding and
  overflow are not modelled, and there is one zero. Trade counts are
  \<^typ>\<open>nat\<close>; millisecond timestamps (\<^verbatim>\<open>Date.now()\<close>, \<^verbatim>\<open>getTime()\<close>) are
  \<^typ>\<open>int\<close>. The module \<^verbatim>\<open>types\<close> that declares the interfaces is not among
  the sources: the records below have the fields that the object literals of the
  sources assign and that the code reads.
\<close>

datatype JSNum = NaN | NegInf | Fin real | PosInf

fun js_add :: "JSNum \<Rightarrow> JSNum \<Rightarrow> JSNum" where
  "js_add NaN y = NaN"
| "js_add x NaN = NaN"
| "js_add PosInf NegInf = NaN"
| "js_add NegInf PosInf = NaN"
| "js_add PosInf y = PosInf"
| "js_add x PosInf = PosInf"
| "js_add NegInf y = NegInf"
| "js_add x NegInf = NegInf"
| "js_add (Fin x) (Fin y) = Fin (x + y)"

fun js_neg :: "JSNum \<Rightarrow> JSNum" where
  "js_neg NaN = NaN"
| "js_neg NegInf = PosInf"
| "js_neg PosInf = NegInf"
| "js_neg (Fin x) = Fin (- x)"

definition js_sub :: "JSNum \<Rightarrow> JSNum \<Rightarrow> JSNum" where
  "js_sub x y = js_add x (js_neg y)"

text \<open>The product of an infinity, positive or negative, and a finite number.\<close>

definition inf_times :: "bool \<Rightarrow> real \<Rightarrow> JSNum" where
  "inf_times positive y =
     (if y = 0 then NaN else if (0 < y) = positive then PosInf else NegInf)"

fun js_mul :: "JSNum \<Rightarrow> JSNum \<Rightarrow> JSNum" where
  "js_mul NaN y = NaN"
| "js_mul x NaN = NaN"
| "js_mul (Fin x) (Fin y) = Fin (x * y)"
| "js_mul PosInf (Fin y) = inf_times True y"
| "js_mul NegInf (Fin y) = inf_times False y"
| "js_mul (Fin x) PosInf = inf_times True x"
| "js_mul (Fin x) NegInf = inf_times False x"
| "js_mul PosInf PosInf = PosInf"
| "js_mul NegInf NegInf = PosInf"
| "js_mul PosInf NegInf = NegInf"
| "js_mul NegInf PosInf = NegInf"

text \<open>The quotient of two finite numbers.\<close>

definition js_div :: "real \<Rightarrow> real \<Rightarrow> JSNum" where
  "js_div x y =
     (if y = 0 then (if 0 < x then PosInf else if x < 0 then NegInf else NaN)
      else Fin (x / y))"

text \<open>
  The comparisons \<^verbatim>\<open>x > t\<close>, \<^verbatim>\<open>x < t\<close> and \<^verbatim>\<open>x >= t\<close> with a finite \<open>t\<close>: every
  comparison with \<^verbatim>\<open>NaN\<close> is false.
\<close>

fun js_gt :: "JSNum \<Rightarrow> real \<Rightarrow> bool" where
  "js_gt NaN t = False"
| "js_gt PosInf t = True"
| "js_gt NegInf t = False"
| "js_gt (Fin x) t = (t < x)"

fun js_lt :: "JSNum \<Rightarrow> real \<Rightarrow> bool" where
  "js_lt NaN t = False"
| "js_lt PosInf t = False"
| "js_lt NegInf t = True"
| "js_lt (Fin x) t = (x < t)"

fun js_ge :: "JSNum \<Rightarrow> real \<Rightarrow> bool" where
  "js_ge NaN t = False"
| "js_ge PosInf t = True"
| "js_ge NegInf t = False"
| "js_ge (Fin x) t = (t \<le> x)"

text \<open>\<^verbatim>\<open>Math.min(t, x)\<close> and \<^verbatim>\<open>Math.max(t, x)\<close> with a finite \<open>t\<close>.\<close>

fun js_min :: "real \<Rightarrow> JSNum \<Rightarrow> JSNum" where
  "js_min t NaN = NaN"
| "js_min t PosInf = Fin t"
| "js_min t NegInf = NegInf"
| "js_min t (Fin x) = Fin (min t x)"

fun js_max :: "real \<Rightarrow> JSNum \<Rightarrow> JSNum" where
  "js_max t NaN = NaN"
| "js_max t PosInf = PosInf"
| "js_max t NegInf = Fin t"
| "js_max t (Fin x) = Fin (max t x)"

text \<open>The number that a finite \<open>JSNum\<close> is.\<close>

definition fin_value :: "JSNum \<Rightarrow> real" where
  "fin_value x = (case x of Fin c \<Rightarrow> c | _ \<Rightarrow> 0)"

datatype StrategyType =
  ARBITRAGE | FLASH_LOAN | MEV | YIELD_FARMING | LIQUIDATION | DCA | GRID_TRADING

datatype RiskLevel = LOW | MEDIUM | HIGH

datatype Recommendation = EXECUTE | SKIP | WAIT

text \<open>The object literal built in \<^verbatim>\<open>executeStrategy\<close> fixes the fields of an opportunity.\<close>

record TradeOpportunity =
  opp_id :: string
  opp_type :: StrategyType
  tokenA :: string
  tokenB :: string
  exchangeA :: string
  exchangeB :: string
  priceA :: real
  priceB :: real
  profitUSD :: real
  profitPercent :: real
  gasEstimate :: real
  confidence :: JSNum
  timestamp :: int

text \<open>
  One entry of \<^verbatim>\<open>AIEvaluation.reasoning\<close>. Each constructor stands for one of the five
  strings the decision engine pushes; the number it carries is the value the template
  string formats with \<^verbatim>\<open>toFixed(2)\<close>.
\<close>

datatype Reason =
  PredictsHigher
  | PredictsLower
  | MarketConditionScore real
  | RiskLevelNote RiskLevel
  | GasOptimization real

record AIEvaluation =
  ev_confidence :: JSNum
  adjustedProfit :: real
  risk :: RiskLevel
  recommendation :: Recommendation
  reasoning :: "Reason list"

text \<open>
  The module \<^verbatim>\<open>config\<close> is not among the sources; the entries the code reads are the
  fields of this record (\<^verbatim>\<open>config.ai.confidenceThreshold\<close>,
  \<^verbatim>\<open>config.trading.minProfitThresholdUSD\<close>, \<^verbatim>\<open>config.risk.*\<close>).
\<close>

record Config =
  confidenceThreshold :: real
  minProfitThresholdUSD :: real
  enableRiskLimits :: bool
  maxPositionSizeETH :: real
  maxDailyLossETH :: real

section \<open>The decision engine\<close>

text \<open>
  \<^verbatim>\<open>NeuralNetworkPredictor.predictProfit\<close>. What happens inside the predictor is one
  of three outcomes: there is no model and \<^verbatim>\<open>Math.random()\<close> is drawn; the model
  answers with the number \<^verbatim>\<open>profit[0]\<close>; or the prediction throws inside the
  predictor's own \<^verbatim>\<open>try\<close>. The result is the value the returned promise resolves
  with, \<open>None\<close> standing for a rejected promise: no path of the function rejects.
\<close>

datatype PredictorOutcome = NoModel real | ModelOutput real | ModelFailure

definition predictProfit :: "PredictorOutcome \<Rightarrow> TradeOpportunity \<Rightarrow> real option" where
  "predictProfit outcome opportunity =
     (case outcome of
        NoModel random \<Rightarrow> Some random
      | ModelOutput profit0 \<Rightarrow> Some (profit0 * profitUSD opportunity)
      | ModelFailure \<Rightarrow> Some (profitUSD opportunity * 0.8))"

text \<open>
  What one call of \<^verbatim>\<open>evaluateOpportunity\<close> reads from outside: what happens inside
  the predictor, the hour of \<^verbatim>\<open>new Date().getHours()\<close> and the clock \<^verbatim>\<open>Date.now()\<close>
  read by \<^verbatim>\<open>assessRisk\<close>.
\<close>

record EvalEnv =
  predictor :: PredictorOutcome
  hour :: nat
  nowMs :: int

text \<open>
  Step 1 of \<^verbatim>\<open>evaluateOpportunity\<close>, the \<^verbatim>\<open>try\<close> block: from the confidence, the
  adjusted profit and the reasoning so far to their values after it. The only
  statement that can throw is the first one, so the \<^verbatim>\<open>catch\<close> branch leaves all
  three as they were (it only logs).
\<close>

definition neuralNetworkStep ::
  "EvalEnv \<Rightarrow> TradeOpportunity \<Rightarrow> JSNum \<times> real \<times> Reason list
     \<Rightarrow> JSNum \<times> real \<times> Reason list" where
  "neuralNetworkStep env opportunity st =
     (case st of (conf, adjusted, reasons) \<Rightarrow>
        (case predictProfit (predictor env) opportunity of
           None \<Rightarrow> (conf, adjusted, reasons)
         | Some predicted \<Rightarrow>
             (let profitAlignment = js_div predicted (profitUSD opportunity) in
              if js_gt profitAlignment 1.2
                then (js_add conf (Fin 0.1), predicted, reasons @ [PredictsHigher])
              else if js_lt profitAlignment 0.8
                then (js_sub conf (Fin 0.1), predicted, reasons @ [PredictsLower])
              else (conf, predicted, reasons))))"

definition analyzeMarketConditions :: "EvalEnv \<Rightarrow> TradeOpportunity \<Rightarrow> real" where
  "analyzeMarketConditions env opportunity =
     (let score = 1;
          score = (if 9 \<le> hour env \<and> hour env \<le> 17 then score * 1.1 else score * 0.9);
          score = (if 50 < profitUSD opportunity then score * 1.2
                   else if profitUSD opportunity < 5 then score * 0.8
                   else score)
      in max 0.1 (min 2 score))"

definition assessRisk :: "EvalEnv \<Rightarrow> TradeOpportunity \<Rightarrow> JSNum \<Rightarrow> RiskLevel" where
  "assessRisk env opportunity conf =
     (let riskScore = (0::nat);
          riskScore = (if 100 < profitUSD opportunity then riskScore + 2
                       else if 50 < profitUSD opportunity then riskScore + 1
                       else riskScore);
          riskScore = (if 0.05 < gasEstimate opportunity then riskScore + 2
                       else if 0.02 < gasEstimate opportunity then riskScore + 1
                       else riskScore);
          riskScore = (if js_lt conf 0.5 then riskScore + 2
                       else if js_lt conf 0.7 then riskScore + 1
                       else riskScore);
          age = nowMs env - timestamp opportunity;
          riskScore = (if 30000 < age then riskScore + 2
                       else if 10000 < age then riskScore + 1
                       else riskScore)
      in if 4 \<le> riskScore then HIGH
         else if 2 \<le> riskScore then MEDIUM
         else LOW)"

definition optimizeGasCosts :: "TradeOpportunity \<Rightarrow> real" where
  "optimizeGasCosts opportunity =
     (let optimalGas = 0.01 in max 0 (gasEstimate opportunity - optimalGas) * 2000)"

definition makeRecommendation :: "Config \<Rightarrow> JSNum \<Rightarrow> RiskLevel \<Rightarrow> real \<Rightarrow> Recommendation" where
  "makeRecommendation cfg conf rsk profit =
     (if js_ge conf (confidenceThreshold cfg) \<and> minProfitThresholdUSD cfg < profit
        then (if rsk = HIGH \<and> js_lt conf 0.9 then WAIT else EXECUTE)
      else if profit < minProfitThresholdUSD cfg / 2 \<or> js_lt conf 0.3 then SKIP
      else WAIT)"

text \<open>
  \<^verbatim>\<open>evaluateOpportunity\<close>: the evaluation it returns, and the evaluation history
  (\<^verbatim>\<open>Map<string, AIEvaluation>\<close>) after \<^verbatim>\<open>evaluationHistory.set\<close>.
\<close>

definition evaluate :: "Config \<Rightarrow> EvalEnv \<Rightarrow> TradeOpportunity \<Rightarrow> AIEvaluation" where
  "evaluate cfg env opportunity =
     (case neuralNetworkStep env opportunity
             (confidence opportunity, profitUSD opportunity, []) of
        (conf, adjusted, reasons) \<Rightarrow>
          (let marketScore = analyzeMarketConditions env opportunity;
               conf = js_mul conf (Fin marketScore);
               reasons = reasons @ [MarketConditionScore marketScore];
               rsk = assessRisk env opportunity conf;
               reasons = reasons @ [RiskLevelNote rsk];
               excessCost = optimizeGasCosts opportunity;
               adjusted = adjusted - excessCost;
               reasons = reasons @ [GasOptimization excessCost];
               conf = js_max 0 (js_min 1 conf);
               rec = makeRecommendation cfg conf rsk adjusted
           in \<lparr> ev_confidence = conf, adjustedProfit = adjusted, risk = rsk,
                recommendation = rec, reasoning = reasons \<rparr>))"

definition evaluateOpportunity ::
  "Config \<Rightarrow> EvalEnv \<Rightarrow> (string \<rightharpoonup> AIEvaluation) \<Rightarrow> TradeOpportunity
     \<Rightarrow> AIEvaluation \<times> (string \<rightharpoonup> AIEvaluation)" where
  "evaluateOpportunity cfg env evaluationHistory opportunity =
     (let evaluation = evaluate cfg env opportunity
      in (evaluation, evaluationHistory(opp_id opportunity \<mapsto> evaluation)))"

section \<open>The strategy registry\<close>

text \<open>
  A value of the free-form \<^verbatim>\<open>parameters\<close> object of a strategy, and the strategy
  with the fields of the object literals that \<^verbatim>\<open>initializeDefaultStrategies\<close>
  registers and the \<^verbatim>\<open>lastExecution\<close> that \<^verbatim>\<open>updateStrategyPerformance\<close> assigns.
\<close>

datatype ParamValue = PNum real | PStr string | PBool bool | PStrs "string list"

record Strategy =
  s_id :: string
  s_name :: string
  s_type :: StrategyType
  riskLevel :: RiskLevel
  enabled :: bool
  priority :: int
  s_successRate :: real
  s_totalTrades :: nat
  s_totalProfitUSD :: real
  parameters :: "(string \<times> ParamValue) list"
  lastExecution :: "int option"

text \<open>
  A JavaScript \<^verbatim>\<open>Map\<close> iterates in insertion order, and \<^verbatim>\<open>set\<close> on a key that is
  present keeps the key's position. The map is an association list with that
  \<open>map_set\<close>; \<^verbatim>\<open>get\<close> is \<^const>\<open>map_of\<close> and \<^verbatim>\<open>values()\<close> is \<open>map_values\<close>.
\<close>

fun map_set :: "'k \<Rightarrow> 'v \<Rightarrow> ('k \<times> 'v) list \<Rightarrow> ('k \<times> 'v) list" where
  "map_set k v [] = [(k, v)]"
| "map_set k v ((k', v') # m) = (if k' = k then (k, v) # m else (k', v') # map_set k v m)"

definition map_values :: "('k \<times> 'v) list \<Rightarrow> 'v list" where
  "map_values m = map snd m"

record StrategyRegistry =
  strategies :: "(string \<times> Strategy) list"
  activeStrategies :: "string set"

text \<open>The registry as its field initialisers leave it, before any registration.\<close>

definition emptyRegistry :: StrategyRegistry where
  "emptyRegistry = \<lparr> strategies = [], activeStrategies = {} \<rparr>"

definition registerStrategy :: "Strategy \<Rightarrow> StrategyRegistry \<Rightarrow> StrategyRegistry" where
  "registerStrategy strategy reg =
     (let reg = reg\<lparr>strategies := map_set (s_id strategy) strategy (strategies reg)\<rparr>
      in if enabled strategy
           then reg\<lparr>activeStrategies := insert (s_id strategy) (activeStrategies reg)\<rparr>
         else reg)"

definition getStrategy :: "StrategyRegistry \<Rightarrow> string \<Rightarrow> Strategy option" where
  "getStrategy reg sid = map_of (strategies reg) sid"


definition getAllEnabledStrategies :: "StrategyRegistry \<Rightarrow> Strategy list" where
  "getAllEnabledStrategies reg = filter enabled (map_values (strategies reg))"



text \<open>
  \<^verbatim>\<open>updateStrategyPerformance\<close> mutates the strategy object held by the map; \<open>now\<close>
  is the \<^verbatim>\<open>new Date()\<close> it stores. An unknown id changes nothing.
\<close>

definition updateStrategyPerformance ::
  "int \<Rightarrow> string \<Rightarrow> bool \<Rightarrow> real \<Rightarrow> StrategyRegistry \<Rightarrow> StrategyRegistry" where
  "updateStrategyPerformance now sid succ profit reg =
     (case map_of (strategies reg) sid of
        None \<Rightarrow> reg
      | Some strategy \<Rightarrow>
          (let strategy = strategy\<lparr>s_totalTrades := s_totalTrades strategy + 1\<rparr>;
               strategy =
                 (if succ then
                    strategy\<lparr>
                      s_successRate :=
                        (s_successRate strategy * real (s_totalTrades strategy - 1) + 100)
                          / real (s_totalTrades strategy),
                      s_totalProfitUSD := s_totalProfitUSD strategy + profit\<rparr>
                  else
                    strategy\<lparr>
                      s_successRate :=
                        (s_successRate strategy * real (s_totalTrades strategy - 1))
                          / real (s_totalTrades strategy),
                      s_totalProfitUSD := s_totalProfitUSD strategy - \<bar>profit\<bar>\<rparr>);
               strategy = strategy\<lparr>lastExecution := Some now\<rparr>
           in reg\<lparr>strategies := map_set sid strategy (strategies reg)\<rparr>))"

section \<open>The trading engine\<close>

record PerformanceMetrics =
  totalTrades :: nat
  successfulTrades :: nat
  failedTrades :: nat
  totalProfitUSD :: real
  totalLossUSD :: real
  netProfitUSD :: real
  averageTradeTime :: real
  tradesPerSecond :: real
  successRate :: real
  sharpeRatio :: real
  maxDrawdown :: real
  winRate :: real
  profitFactor :: real
  m_timestamp :: int

record TradeResult =
  tr_id :: string
  strategyId :: string
  opportunity :: TradeOpportunity
  success :: bool
  tr_profitUSD :: real
  gasUsed :: real
  transactionHash :: "string option"
  executionTime :: real
  tr_timestamp :: int

datatype Event =
  engine_started
  | engine_stopped
  | trade_executed TradeResult
  | performance_update PerformanceMetrics

text \<open>
  The fields of the class \<^verbatim>\<open>TradingEngine\<close>, and the events it has emitted, oldest
  first. The engine's own map of active strategies holds the strategy objects of the
  registry; the engine reads only their \<^verbatim>\<open>id\<close>, \<^verbatim>\<open>type\<close> and \<^verbatim>\<open>name\<close>, which no
  operation changes.
\<close>

record TradingEngine =
  isRunning :: bool
  metrics :: PerformanceMetrics
  executionQueue :: "TradeOpportunity list"
  te_activeStrategies :: "(string \<times> Strategy) list"
  tradeHistory :: "TradeResult list"
  emitted :: "Event list"

definition initializeMetrics :: "int \<Rightarrow> PerformanceMetrics" where
  "initializeMetrics now =
     \<lparr> totalTrades = 0, successfulTrades = 0, failedTrades = 0, totalProfitUSD = 0,
       totalLossUSD = 0, netProfitUSD = 0, averageTradeTime = 0, tradesPerSecond = 0,
       successRate = 0, sharpeRatio = 0, maxDrawdown = 0, winRate = 0, profitFactor = 0,
       m_timestamp = now \<rparr>"

text \<open>The engine as its constructor leaves it.\<close>

definition newTradingEngine :: "int \<Rightarrow> TradingEngine" where
  "newTradingEngine now =
     \<lparr> isRunning = False, metrics = initializeMetrics now, executionQueue = [],
       te_activeStrategies = [], tradeHistory = [], emitted = [] \<rparr>"

text \<open>
  \<^verbatim>\<open>initializeStrategies\<close>, called by \<^verbatim>\<open>start\<close>: every enabled strategy of the
  registry is \<^verbatim>\<open>set\<close> into the engine's map under its id.
\<close>

definition initializeStrategies :: "StrategyRegistry \<Rightarrow> TradingEngine \<Rightarrow> TradingEngine" where
  "initializeStrategies reg eng =
     eng\<lparr>te_activeStrategies :=
           foldl (\<lambda>m strategy. map_set (s_id strategy) strategy m)
             (te_activeStrategies eng) (getAllEnabledStrategies reg)\<rparr>"

definition resetMetrics :: "int \<Rightarrow> TradingEngine \<Rightarrow> TradingEngine" where
  "resetMetrics now eng = eng\<lparr>metrics := initializeMetrics now, tradeHistory := []\<rparr>"

definition checkRiskLimits :: "Config \<Rightarrow> TradingEngine \<Rightarrow> TradeOpportunity \<Rightarrow> bool" where
  "checkRiskLimits cfg eng opp =
     (if \<not> enableRiskLimits cfg then True
      else if maxPositionSizeETH cfg * 2000 < profitUSD opp then False
      else if maxDailyLossETH cfg * 2000 < totalLossUSD (metrics eng) then False
      else True)"

text \<open>\<open>now\<close> is the \<^verbatim>\<open>Date.now()\<close> stored as the metrics' timestamp.\<close>

definition updateDerivedMetrics :: "int \<Rightarrow> TradingEngine \<Rightarrow> TradingEngine" where
  "updateDerivedMetrics now eng =
     (let m = metrics eng;
          m = (if 0 < totalTrades m
                 then (let m = m\<lparr>successRate :=
                                    real (successfulTrades m) / real (totalTrades m) * 100\<rparr>
                       in m\<lparr>winRate := successRate m\<rparr>)
               else m);
          m = (if 0 < totalLossUSD m
                 then m\<lparr>profitFactor := totalProfitUSD m / totalLossUSD m\<rparr>
               else m);
          m = (if 0 < length (tradeHistory eng)
                 then (let totalTime = foldl (\<lambda>sum trade. sum + executionTime trade) 0
                                         (tradeHistory eng)
                       in m\<lparr>averageTradeTime := totalTime / real (length (tradeHistory eng))\<rparr>)
               else m);
          m = m\<lparr>m_timestamp := now\<rparr>
      in eng\<lparr>metrics := m\<rparr>)"

definition recordTradeResult :: "int \<Rightarrow> TradeResult \<Rightarrow> TradingEngine \<Rightarrow> TradingEngine" where
  "recordTradeResult now result eng =
     (let eng = eng\<lparr>tradeHistory := tradeHistory eng @ [result]\<rparr>;
          m = metrics eng;
          m = m\<lparr>totalTrades := totalTrades m + 1\<rparr>;
          m = (if success result
                 then m\<lparr>successfulTrades := successfulTrades m + 1,
                        totalProfitUSD := totalProfitUSD m + tr_profitUSD result,
                        netProfitUSD := netProfitUSD m + tr_profitUSD result\<rparr>
               else m\<lparr>failedTrades := failedTrades m + 1,
                      totalLossUSD := totalLossUSD m + \<bar>tr_profitUSD result\<bar>,
                      netProfitUSD := netProfitUSD m - \<bar>tr_profitUSD result\<bar>\<rparr>)
      in updateDerivedMetrics now (eng\<lparr>metrics := m\<rparr>))"

text \<open>Decimal rendering of a number in a template string (\<^verbatim>\<open>`${Date.now()}`\<close>).\<close>

function show_nat :: "nat \<Rightarrow> string" where
  "show_nat n =
     (if n < 10 then [''0123456789'' ! n]
      else show_nat (n div 10) @ [''0123456789'' ! (n mod 10)])"
  by pat_completeness auto
termination
  by (relation "measure (\<lambda>n. n)") auto

definition show_int :: "int \<Rightarrow> string" where
  "show_int i = (if i < 0 then CHR ''-'' # show_nat (nat (- i)) else show_nat (nat i))"

text \<open>
  What one call of \<^verbatim>\<open>executeOpportunity\<close> reads from outside: the clock at entry, the
  draw of \<^verbatim>\<open>Math.random()\<close> in \<^verbatim>\<open>performTrade\<close>, the clock after the trade, the clock
  in the result's id, the random transaction hash, the \<^verbatim>\<open>new Date()\<close> of the result
  and the clock of \<^verbatim>\<open>updateDerivedMetrics\<close>.
\<close>

record ExecEnv =
  startTime :: int
  tradeRandom :: real
  endTime :: int
  idTime :: int
  hashText :: string
  resultTime :: int
  recordTime :: int

definition performTrade :: "ExecEnv \<Rightarrow> TradeOpportunity \<Rightarrow> bool" where
  "performTrade env opp = (0.2 < tradeRandom env)"

text \<open>
  The three module-level singletons: \<^verbatim>\<open>tradingEngine\<close>, \<^verbatim>\<open>strategyRegistry\<close> and the
  evaluation history of \<^verbatim>\<open>aiDecisionEngine\<close>.
\<close>

record System =
  engine :: TradingEngine
  registry :: StrategyRegistry
  evaluationHistory :: "string \<rightharpoonup> AIEvaluation"

definition executeOpportunity :: "Config \<Rightarrow> ExecEnv \<Rightarrow> TradeOpportunity \<Rightarrow> System \<Rightarrow> System" where
  "executeOpportunity cfg env opp sys =
     (if \<not> checkRiskLimits cfg (engine sys) opp then sys
      else
        (let succ = performTrade env opp;
             elapsed = real_of_int (endTime env - startTime env);
             result =
               \<lparr> tr_id = ''trade_'' @ show_int (idTime env),
                 strategyId = ''unknown'',
                 opportunity = opp,
                 success = succ,
                 tr_profitUSD = (if succ then profitUSD opp else 0),
                 gasUsed = (if succ then gasEstimate opp else 0),
                 transactionHash = (if succ then Some (''0x'' @ hashText env) else None),
                 executionTime = elapsed,
                 tr_timestamp = resultTime env \<rparr>;
             eng = recordTradeResult (recordTime env) result (engine sys);
             eng = eng\<lparr>emitted := emitted eng @ [trade_executed result]\<rparr>
         in sys\<lparr>engine := eng\<rparr>))"

text \<open>
  \<^verbatim>\<open>executeStrategy\<close>: the draws of \<^verbatim>\<open>Math.random()\<close> in the order the code makes
  them, and the two clock reads of the object literal.
\<close>

record StrategyDraws =
  drawGate :: real
  drawPriceA :: real
  drawPriceB :: real
  drawProfit :: real
  drawProfitPercent :: real
  drawGas :: real
  drawConfidence :: real
  drawIdTime :: int
  drawCreated :: int

definition executeStrategy :: "StrategyDraws \<Rightarrow> Strategy \<Rightarrow> TradeOpportunity list" where
  "executeStrategy d strategy =
     (if 0.7 < drawGate d then
        [\<lparr> opp_id = s_id strategy @ ''_'' @ show_int (drawIdTime d),
           opp_type = (if s_type strategy = ARBITRAGE then ARBITRAGE else FLASH_LOAN),
           tokenA = ''ETH'',
           tokenB = ''USDT'',
           exchangeA = ''Uniswap'',
           exchangeB = ''Sushiswap'',
           priceA = 2000 + drawPriceA d * 100,
           priceB = 2010 + drawPriceB d * 100,
           profitUSD = drawProfit d * 50,
           profitPercent = drawProfitPercent d * 2,
           gasEstimate = drawGas d * 0.01,
           confidence = Fin (drawConfidence d),
           timestamp = drawCreated d \<rparr>]
      else [])"

text \<open>
  The loops of the cycle. The \<open>i\<close>-th iteration of a loop reads the \<open>i\<close>-th
  environment of its oracle.
\<close>

fun findOpportunitiesFrom ::
  "(nat \<Rightarrow> StrategyDraws) \<Rightarrow> nat \<Rightarrow> Strategy list \<Rightarrow> TradeOpportunity list" where
  "findOpportunitiesFrom draws i [] = []"
| "findOpportunitiesFrom draws i (strategy # rest) =
     executeStrategy (draws i) strategy @ findOpportunitiesFrom draws (Suc i) rest"

definition findOpportunities :: "(nat \<Rightarrow> StrategyDraws) \<Rightarrow> TradingEngine \<Rightarrow> TradeOpportunity list" where
  "findOpportunities draws eng =
     findOpportunitiesFrom draws 0 (map_values (te_activeStrategies eng))"

text \<open>
  The object pushed by \<^verbatim>\<open>evaluateOpportunities\<close>; \<^verbatim>\<open>adjustedProfit || profitUSD\<close>
  takes the opportunity's own profit when the adjusted profit is zero.
\<close>

definition revised :: "TradeOpportunity \<Rightarrow> AIEvaluation \<Rightarrow> TradeOpportunity" where
  "revised opp aiEvaluation =
     opp\<lparr> confidence := ev_confidence aiEvaluation,
          profitUSD := (if adjustedProfit aiEvaluation = 0 then profitUSD opp
                        else adjustedProfit aiEvaluation) \<rparr>"

fun evaluateFrom ::
  "Config \<Rightarrow> (nat \<Rightarrow> EvalEnv) \<Rightarrow> nat \<Rightarrow> TradeOpportunity list \<Rightarrow> (string \<rightharpoonup> AIEvaluation)
     \<Rightarrow> TradeOpportunity list \<times> (string \<rightharpoonup> AIEvaluation)" where
  "evaluateFrom cfg envs i [] hist = ([], hist)"
| "evaluateFrom cfg envs i (opp # rest) hist =
     (case evaluateOpportunity cfg (envs i) hist opp of
        (aiEvaluation, hist) \<Rightarrow>
          (case evaluateFrom cfg envs (Suc i) rest hist of
             (evaluated, hist) \<Rightarrow> (revised opp aiEvaluation # evaluated, hist)))"

text \<open>
  \<^verbatim>\<open>Array.prototype.sort(comparefn)\<close> is stable, and a comparator result of
  \<^verbatim>\<open>NaN\<close> counts as zero. For a consistent comparator every stable sort returns the
  same array; the model is the insertion sort that puts an element after those it
  compares greater than. Where the comparator is not consistent the language leaves
  the order to the implementation, and the model is one such order.
\<close>

fun js_insert :: "('a \<Rightarrow> 'a \<Rightarrow> JSNum) \<Rightarrow> 'a \<Rightarrow> 'a list \<Rightarrow> 'a list" where
  "js_insert comparefn x [] = [x]"
| "js_insert comparefn x (y # ys) =
     (if js_gt (comparefn x y) 0 then y # js_insert comparefn x ys else x # y # ys)"

definition js_sort :: "('a \<Rightarrow> 'a \<Rightarrow> JSNum) \<Rightarrow> 'a list \<Rightarrow> 'a list" where
  "js_sort comparefn xs = foldr (js_insert comparefn) xs []"

text \<open>The comparator \<^verbatim>\<open>(a, b) => b.confidence - a.confidence\<close>.\<close>

definition byConfidence :: "TradeOpportunity \<Rightarrow> TradeOpportunity \<Rightarrow> JSNum" where
  "byConfidence a b = js_sub (confidence b) (confidence a)"

definition evaluateOpportunities ::
  "Config \<Rightarrow> (nat \<Rightarrow> EvalEnv) \<Rightarrow> TradeOpportunity list \<Rightarrow> (string \<rightharpoonup> AIEvaluation)
     \<Rightarrow> TradeOpportunity list \<times> (string \<rightharpoonup> AIEvaluation)" where
  "evaluateOpportunities cfg envs opportunities hist =
     (case evaluateFrom cfg envs 0 opportunities hist of
        (evaluated, hist) \<Rightarrow> (js_sort byConfidence evaluated, hist))"

fun executeFrom ::
  "Config \<Rightarrow> (nat \<Rightarrow> ExecEnv) \<Rightarrow> nat \<Rightarrow> TradeOpportunity list \<Rightarrow> System \<Rightarrow> System" where
  "executeFrom cfg envs i [] sys = sys"
| "executeFrom cfg envs i (opp # rest) sys =
     executeFrom cfg envs (Suc i) rest (executeOpportunity cfg (envs i) opp sys)"

text \<open>The oracles of one cycle.\<close>

record CycleEnv =
  strategyDraws :: "nat \<Rightarrow> StrategyDraws"
  evalEnvs :: "nat \<Rightarrow> EvalEnv"
  execEnvs :: "nat \<Rightarrow> ExecEnv"

definition highConfidence :: "Config \<Rightarrow> TradeOpportunity list \<Rightarrow> TradeOpportunity list" where
  "highConfidence cfg evaluatedOpportunities =
     filter (\<lambda>opp. js_ge (confidence opp) (confidenceThreshold cfg)) evaluatedOpportunities"

definition processTradingCycle :: "Config \<Rightarrow> CycleEnv \<Rightarrow> System \<Rightarrow> System" where
  "processTradingCycle cfg cyc sys =
     (let opportunities = findOpportunities (strategyDraws cyc) (engine sys) in
      case evaluateOpportunities cfg (evalEnvs cyc) opportunities (evaluationHistory sys) of
        (evaluatedOpportunities, hist) \<Rightarrow>
          executeFrom cfg (execEnvs cyc) 0
            (highConfidence cfg evaluatedOpportunities)
            (sys\<lparr>evaluationHistory := hist\<rparr>))"

section \<open>Notions used in the statements\<close>

text \<open>
  The confidence that \<^verbatim>\<open>evaluateOpportunity\<close> passes to \<^verbatim>\<open>assessRisk\<close>: the
  opportunity's confidence after the prediction step, times the market score, before
  clamping.
\<close>

definition runningConfidence :: "EvalEnv \<Rightarrow> TradeOpportunity \<Rightarrow> JSNum" where
  "runningConfidence env opp =
     js_mul (fst (neuralNetworkStep env opp (confidence opp, profitUSD opp, [])))
       (Fin (analyzeMarketConditions env opp))"

text \<open>
  The additive risk score as the specification words it, a sum of four contributions,
  with the thresholds of \<^verbatim>\<open>assessRisk\<close>.
\<close>

definition spec_riskScore :: "EvalEnv \<Rightarrow> TradeOpportunity \<Rightarrow> JSNum \<Rightarrow> nat" where
  "spec_riskScore env opp conf =
     (if 100 < profitUSD opp then 2 else if 50 < profitUSD opp then 1 else 0)
     + (if 0.05 < gasEstimate opp then 2 else if 0.02 < gasEstimate opp then 1 else 0)
     + (if js_lt conf 0.5 then 2 else if js_lt conf 0.7 then 1 else 0)
     + (if 30000 < nowMs env - timestamp opp then 2
        else if 10000 < nowMs env - timestamp opp then 1 else 0)"

text \<open>Recording a sequence of results, each with the clock its record reads.\<close>

fun recordAll :: "(int \<times> TradeResult) list \<Rightarrow> TradingEngine \<Rightarrow> TradingEngine" where
  "recordAll [] eng = eng"
| "recordAll ((now, result) # rest) eng = recordAll rest (recordTradeResult now result eng)"

text \<open>A confidence in the closed interval from 0 to 1.\<close>

definition in_unit_interval :: "JSNum \<Rightarrow> bool" where
  "in_unit_interval x = (case x of Fin c \<Rightarrow> 0 \<le> c \<and> c \<le> 1 | _ \<Rightarrow> False)"

text \<open>
  What a cycle submits for execution, said without the code of the evaluation loop.
  Each opportunity that the strategies yield, with the position it has among them, is
  given the confidence of its evaluation and the adjusted profit of its evaluation
  (its own profit when the adjusted profit is zero); these are sorted by descending
  confidence with the stable sort of the library, so that equal confidences stay in
  the order the strategies yielded them; and those are kept whose confidence reaches
  the threshold and that \<^verbatim>\<open>checkRiskLimits\<close> permits on the metrics the cycle starts
  with. No other field of an evaluation enters.
\<close>

definition submitted :: "Config \<Rightarrow> CycleEnv \<Rightarrow> System \<Rightarrow> TradeOpportunity list" where
  "submitted cfg cyc sys =
     filter (\<lambda>opp. js_ge (confidence opp) (confidenceThreshold cfg) \<and>
                   checkRiskLimits cfg (engine sys) opp)
       (sort_key (\<lambda>opp. - fin_value (confidence opp))
          (map (\<lambda>(i, opp).
                  opp\<lparr> confidence := ev_confidence (evaluate cfg (evalEnvs cyc i) opp),
                       profitUSD :=
                         (if adjustedProfit (evaluate cfg (evalEnvs cyc i) opp) = 0
                          then profitUSD opp
                          else adjustedProfit (evaluate cfg (evalEnvs cyc i) opp)) \<rparr>)
             (enumerate 0 (findOpportunities (strategyDraws cyc) (engine sys)))))"

section \<open>Concrete inputs\<close>

text \<open>
  Two registered strategies of equal total profit, the first with the larger priority
  number, and one cycle in which the first strategy yields one opportunity, the model
  predicts half of its profit and the trade succeeds.
\<close>

definition strategy1 :: Strategy where
  "strategy1 =
     \<lparr> s_id = ''s1'', s_name = ''Uniswap-Sushiswap Arbitrage'', s_type = ARBITRAGE,
       riskLevel = LOW, enabled = True, priority = 2, s_successRate = 0, s_totalTrades = 0,
       s_totalProfitUSD = 10, parameters = [], lastExecution = None \<rparr>"

definition strategy2 :: Strategy where
  "strategy2 = strategy1\<lparr> s_id := ''s2'', s_name := ''Flash Loan'', priority := 1 \<rparr>"

definition registry0 :: StrategyRegistry where
  "registry0 = registerStrategy strategy2 (registerStrategy strategy1 emptyRegistry)"

definition config0 :: Config where
  "config0 =
     \<lparr> confidenceThreshold = 0.7, minProfitThresholdUSD = 10, enableRiskLimits = True,
       maxPositionSizeETH = 1, maxDailyLossETH = 1 \<rparr>"

definition draws0 :: StrategyDraws where
  "draws0 =
     \<lparr> drawGate = 0.9, drawPriceA = 0.5, drawPriceB = 0.5, drawProfit = 0.06,
       drawProfitPercent = 0.5, drawGas = 0.5, drawConfidence = 0.95,
       drawIdTime = 1000, drawCreated = 1000 \<rparr>"

definition opportunity0 :: TradeOpportunity where
  "opportunity0 =
     \<lparr> opp_id = ''s1_1000'', opp_type = ARBITRAGE, tokenA = ''ETH'', tokenB = ''USDT'',
       exchangeA = ''Uniswap'', exchangeB = ''Sushiswap'', priceA = 2050, priceB = 2060,
       profitUSD = 3, profitPercent = 1, gasEstimate = 0.005, confidence = Fin 0.95,
       timestamp = 1000 \<rparr>"

definition evalEnv0 :: EvalEnv where
  "evalEnv0 = \<lparr> predictor = ModelOutput 0.5, hour = 10, nowMs = 1002 \<rparr>"

definition execEnv0 :: ExecEnv where
  "execEnv0 =
     \<lparr> startTime = 1003, tradeRandom = 0.5, endTime = 1010, idTime = 1010,
       hashText = ''abc'', resultTime = 1010, recordTime = 1011 \<rparr>"

definition cycle0 :: CycleEnv where
  "cycle0 =
     \<lparr> strategyDraws = (\<lambda>i. if i = 0 then draws0 else draws0\<lparr>drawGate := 0.5\<rparr>),
       evalEnvs = (\<lambda>i. evalEnv0), execEnvs = (\<lambda>i. execEnv0) \<rparr>"

definition system0 :: System where
  "system0 =
     \<lparr> engine = initializeStrategies registry0 ((newTradingEngine 0)\<lparr>isRunning := True\<rparr>),
       registry = registry0, evaluationHistory = Map.empty \<rparr>"

text \<open>The opportunity as the evaluation of the cycle revises it, and the trade result.\<close>

definition revised0 :: TradeOpportunity where
  "revised0 = opportunity0\<lparr> confidence := Fin 0.748, profitUSD := 1.5 \<rparr>"

definition result0 :: TradeResult where
  "result0 =
     \<lparr> tr_id = ''trade_1010'', strategyId = ''unknown'',
       opportunity = revised0, success = True, tr_profitUSD = 1.5,
       gasUsed = 0.005, transactionHash = Some ''0xabc'', executionTime = 7,
       tr_timestamp = 1010 \<rparr>"


section \<open>The decision engine: recommendation, confidence and risk tier\<close>

lemma evaluateOpportunity_fst: "fst (evaluateOpportunity cfg env hist opp) = evaluate cfg env opp"
  by (simp add: evaluateOpportunity_def Let_def)

lemma assessRisk_score:
  "assessRisk env opp conf =
     (if 4 \<le> spec_riskScore env opp conf then HIGH
      else if 2 \<le> spec_riskScore env opp conf then MEDIUM else LOW)"
  unfolding assessRisk_def spec_riskScore_def Let_def
  by (simp split: if_splits)

lemma risk_evaluate:
  "risk (evaluate cfg env opp) = assessRisk env opp (runningConfidence env opp)"
  by (simp add: evaluate_def runningConfidence_def Let_def split: prod.split)

lemma evaluate_recommendation:
  "recommendation (evaluate cfg env opp) =
     makeRecommendation cfg (ev_confidence (evaluate cfg env opp))
       (risk (evaluate cfg env opp)) (adjustedProfit (evaluate cfg env opp))"
  by (simp add: evaluate_def Let_def split: prod.split)

lemma confidence_evaluate:
  "ev_confidence (evaluate cfg env opp) = js_max 0 (js_min 1 (runningConfidence env opp))"
  by (simp add: evaluate_def runningConfidence_def Let_def split: prod.split)

lemma adjustedProfit_evaluate:
  "adjustedProfit (evaluate cfg env opp) =
     fst (snd (neuralNetworkStep env opp (confidence opp, profitUSD opp, [])))
       - optimizeGasCosts opp"
  by (simp add: evaluate_def Let_def split: prod.split)


text \<open>
  Claim C1. Whatever the evaluation history, the recommendation of the evaluation that
  \<^verbatim>\<open>evaluateOpportunity\<close> returns is determined by the evaluation's own (clamped)
  confidence, risk tier and adjusted profit and by the two configured thresholds:
  EXECUTE when the confidence reaches the confidence threshold and the adjusted profit
  exceeds the minimum profit, except WAIT when the risk is HIGH and the confidence is
  below 0.9; otherwise SKIP when the adjusted profit is below half the minimum profit
  or the confidence is below 0.3; otherwise WAIT. The comparisons are those of
  JavaScript, false on \<^verbatim>\<open>NaN\<close>.
\<close>

theorem recommendation_rule:
  "(let ev = fst (evaluateOpportunity cfg env hist opp);
        c = ev_confidence ev; p = adjustedProfit ev; r = risk ev
    in recommendation ev =
         (if js_ge c (confidenceThreshold cfg) \<and> minProfitThresholdUSD cfg < p
            then (if r = HIGH \<and> js_lt c 0.9 then WAIT else EXECUTE)
          else if p < minProfitThresholdUSD cfg / 2 \<or> js_lt c 0.3 then SKIP
          else WAIT))"
  unfolding Let_def evaluateOpportunity_fst
  by (subst evaluate_recommendation) (simp only: makeRecommendation_def)

lemma js_add_Fin_NaN: "(js_add x (Fin c) = NaN) = (x = NaN)"
  by (cases x) simp_all

lemma js_sub_Fin_NaN: "(js_sub x (Fin c) = NaN) = (x = NaN)"
  by (cases x) (simp_all add: js_sub_def)

lemma js_mul_positive_NaN: "0 < m \<Longrightarrow> (js_mul x (Fin m) = NaN) = (x = NaN)"
  by (cases x) (simp_all add: inf_times_def)

lemma analyzeMarketConditions_positive: "0 < analyzeMarketConditions env opp"
  by (simp add: analyzeMarketConditions_def Let_def max_def)

lemma neuralNetworkStep_NaN:
  "(fst (neuralNetworkStep env opp (c, p, rs)) = NaN) = (c = NaN)"
  by (simp add: neuralNetworkStep_def Let_def js_add_Fin_NaN js_sub_Fin_NaN
      split: option.split)

lemma runningConfidence_NaN: "(runningConfidence env opp = NaN) = (confidence opp = NaN)"
  unfolding runningConfidence_def
  by (simp add: js_mul_positive_NaN[OF analyzeMarketConditions_positive]
      neuralNetworkStep_NaN)

lemma clamp_unit_interval: "in_unit_interval (js_max 0 (js_min 1 x)) = (x \<noteq> NaN)"
  by (cases x) (simp_all add: in_unit_interval_def)

text \<open>
  Claim C2 as the code has it. For every opportunity whose input confidence is not
  \<^verbatim>\<open>NaN\<close> (negative, greater than 1 or infinite as it may be), the confidence of the
  returned evaluation lies in the closed interval from 0 to 1; for the input
  confidence \<^verbatim>\<open>NaN\<close> the returned confidence is \<^verbatim>\<open>NaN\<close>.
\<close>

theorem confidence_clamped_unless_NaN:
  "(if confidence opp = NaN
    then ev_confidence (fst (evaluateOpportunity cfg env hist opp)) = NaN
    else in_unit_interval (ev_confidence (fst (evaluateOpportunity cfg env hist opp))))"
proof (cases "confidence opp = NaN")
  case True
  then have "runningConfidence env opp = NaN"
    by (simp add: runningConfidence_NaN)
  with True show ?thesis
    by (simp add: evaluateOpportunity_fst confidence_evaluate)
next
  case False
  then have "runningConfidence env opp \<noteq> NaN"
    by (simp add: runningConfidence_NaN)
  with False show ?thesis
    by (simp add: evaluateOpportunity_fst confidence_evaluate clamp_unit_interval)
qed

text \<open>
  The opportunity of the example with the confidence \<^verbatim>\<open>NaN\<close>: the clamp
  \<^verbatim>\<open>Math.max(0, Math.min(1, NaN))\<close> returns \<^verbatim>\<open>NaN\<close>, which is not in the interval.
\<close>

theorem NaN_confidence_counterexample:
  "ev_confidence (fst (evaluateOpportunity config0 evalEnv0 (evaluationHistory system0)
                         (opportunity0\<lparr>confidence := NaN\<rparr>))) = NaN
   \<and> \<not> in_unit_interval
         (ev_confidence (fst (evaluateOpportunity config0 evalEnv0 (evaluationHistory system0)
                                (opportunity0\<lparr>confidence := NaN\<rparr>))))"
proof -
  have "runningConfidence evalEnv0 (opportunity0\<lparr>confidence := NaN\<rparr>) = NaN"
    by (simp add: runningConfidence_NaN)
  then show ?thesis
    by (simp add: evaluateOpportunity_fst confidence_evaluate in_unit_interval_def)
qed

text \<open>
  Claim C5. The risk tier of the evaluation is HIGH exactly when the additive risk
  score is at least 4, MEDIUM exactly when it is at least 2 and less than 4, and LOW
  otherwise; the score is the sum of the four contributions of \<open>spec_riskScore\<close>,
  taken at the running confidence.
\<close>

theorem risk_tier_from_score:
  "(let r = risk (fst (evaluateOpportunity cfg env hist opp));
        score = spec_riskScore env opp (runningConfidence env opp)
    in (r = HIGH \<longleftrightarrow> 4 \<le> score) \<and>
       (r = MEDIUM \<longleftrightarrow> 2 \<le> score \<and> score < 4) \<and>
       (r = LOW \<longleftrightarrow> score < 2))"
  by (simp add: evaluateOpportunity_fst risk_evaluate assessRisk_score Let_def)







lemma evaluate0:
  "evaluate config0 evalEnv0 opportunity0 =
     \<lparr> ev_confidence = Fin 0.748, adjustedProfit = 1.5, risk = LOW, recommendation = SKIP,
       reasoning = [PredictsLower, MarketConditionScore 0.88, RiskLevelNote LOW,
                    GasOptimization 0] \<rparr>"
  by (simp add: evaluate_def neuralNetworkStep_def predictProfit_def js_div_def js_sub_def
      analyzeMarketConditions_def assessRisk_def optimizeGasCosts_def makeRecommendation_def
      config0_def evalEnv0_def opportunity0_def Let_def)


section \<open>The risk gate\<close>

text \<open>
  Claim C3. \<^verbatim>\<open>checkRiskLimits\<close> is a predicate of the configuration, the
  opportunity's profit and the running total loss alone. With risk limiting disabled
  it permits; enabled, it rejects when the profit exceeds
  \<^verbatim>\<open>maxPositionSizeETH * 2000\<close> or the total loss exceeds \<^verbatim>\<open>maxDailyLossETH * 2000\<close>,
  and permits otherwise. With \<^verbatim>\<open>maxPositionSizeETH = 1\<close> a profit of 2500 is
  rejected, and a profit of 1500 is accepted unless the loss limit rejects.
\<close>

theorem checkRiskLimits_rule:
  "checkRiskLimits cfg eng opp =
     (if enableRiskLimits cfg
        then profitUSD opp \<le> maxPositionSizeETH cfg * 2000 \<and>
             totalLossUSD (metrics eng) \<le> maxDailyLossETH cfg * 2000
      else True)
   \<and> checkRiskLimits (cfg\<lparr>enableRiskLimits := False\<rparr>) eng opp
   \<and> \<not> checkRiskLimits (cfg\<lparr>enableRiskLimits := True, maxPositionSizeETH := 1\<rparr>) eng
         (opp\<lparr>profitUSD := 2500\<rparr>)
   \<and> checkRiskLimits (cfg\<lparr>enableRiskLimits := True, maxPositionSizeETH := 1\<rparr>) eng
         (opp\<lparr>profitUSD := 1500\<rparr>)
       = (totalLossUSD (metrics eng) \<le> maxDailyLossETH cfg * 2000)"
  by (auto simp: checkRiskLimits_def)

section \<open>The strategy registry: outcomes and top performers\<close>

lemma map_of_map_set: "map_of (map_set k v m) k = Some v"
  by (induction m) auto

lemma getStrategy_update:
  "map_of (strategies reg) sid = Some s \<Longrightarrow>
   getStrategy (updateStrategyPerformance now sid succ profit reg) sid =
     Some (s\<lparr> s_totalTrades := s_totalTrades s + 1,
              s_successRate :=
                (s_successRate s * real (s_totalTrades s + 1 - 1) + (if succ then 100 else 0))
                  / real (s_totalTrades s + 1),
              s_totalProfitUSD :=
                (if succ then s_totalProfitUSD s + profit else s_totalProfitUSD s - \<bar>profit\<bar>),
              lastExecution := Some now \<rparr>)"
  by (simp add: getStrategy_def updateStrategyPerformance_def Let_def map_of_map_set)

lemma registry0_strategies:
  "strategies registry0 = [(''s1'', strategy1), (''s2'', strategy2)]"
  by (simp add: registry0_def registerStrategy_def emptyRegistry_def strategy1_def
      strategy2_def Let_def)

text \<open>
  Claim C6 as the code has it. For a strategy \<open>s\<close> of the store,
  \<^verbatim>\<open>updateStrategyPerformance\<close> leaves under its id the strategy with the trade count
  \<open>n\<close> incremented, the success rate \<open>(oldRate * (n - 1) + (success ? 100 : 0)) / n\<close>,
  the total profit increased by the profit on success and decreased by the absolute
  value of the profit on failure, and the last execution set to the clock. From zero
  trades, one success gives the rate 100, and one failure after it the rate 50.
\<close>

theorem updateStrategyPerformance_rule:
  assumes "getStrategy reg sid = Some s"
  shows "(let n = s_totalTrades s + 1 in
           getStrategy (updateStrategyPerformance now sid succ profit reg) sid =
             Some (s\<lparr> s_totalTrades := n,
                      s_successRate :=
                        (s_successRate s * real (n - 1) + (if succ then 100 else 0)) / real n,
                      s_totalProfitUSD :=
                        (if succ then s_totalProfitUSD s + profit
                         else s_totalProfitUSD s - \<bar>profit\<bar>),
                      lastExecution := Some now \<rparr>))
         \<and> (s_totalTrades s = 0 \<longrightarrow>
              map_option s_successRate
                (getStrategy (updateStrategyPerformance now sid True profit reg) sid) = Some 100
              \<and> map_option s_successRate
                (getStrategy (updateStrategyPerformance now' sid False profit'
                   (updateStrategyPerformance now sid True profit reg)) sid) = Some 50)"
proof -
  from assms have m: "map_of (strategies reg) sid = Some s"
    by (simp add: getStrategy_def)
  note u = getStrategy_update[OF m]
  have first: "getStrategy (updateStrategyPerformance now sid True profit reg) sid =
          Some (s\<lparr> s_totalTrades := s_totalTrades s + 1,
              s_successRate :=
                (s_successRate s * real (s_totalTrades s + 1 - 1) + 100)
                  / real (s_totalTrades s + 1),
              s_totalProfitUSD := s_totalProfitUSD s + profit,
              lastExecution := Some now \<rparr>)" (is "_ = Some ?s1")
    using u[of now True profit] by simp
  then have m1:
    "map_of (strategies (updateStrategyPerformance now sid True profit reg)) sid = Some ?s1"
    by (simp add: getStrategy_def)
  show ?thesis
    using u[of now succ profit] getStrategy_update[OF m1, of now' False profit'] first
    by (simp add: Let_def)
qed

theorem updateStrategyPerformance_rule_witness:
  "getStrategy registry0 ''s2'' = Some strategy2 \<and> s_totalTrades strategy2 = 0 \<and>
   getStrategy (updateStrategyPerformance 1 ''s2'' False (- 7) registry0) ''s2'' =
     Some (strategy2\<lparr> s_totalTrades := 1, s_successRate := 0, s_totalProfitUSD := 3,
                      lastExecution := Some 1 \<rparr>) \<and>
   map_option s_successRate
      (getStrategy (updateStrategyPerformance 1 ''s2'' True 7 registry0) ''s2'') = Some 100 \<and>
   map_option s_successRate
      (getStrategy (updateStrategyPerformance 2 ''s2'' False 7
          (updateStrategyPerformance 1 ''s2'' True 7 registry0)) ''s2'') = Some 50"
proof -
  have h: "getStrategy registry0 ''s2'' = Some strategy2"
    by (simp add: getStrategy_def registry0_strategies)
  have z: "s_totalTrades strategy2 = 0" "s_totalProfitUSD strategy2 = 10"
    by (simp_all add: strategy2_def strategy1_def)
  show ?thesis
    using updateStrategyPerformance_rule[OF h, of 1 False "- 7" 2 7]
      updateStrategyPerformance_rule[OF h, of 1 True 7 2 7] h z
    by (simp add: Let_def)
qed

text \<open>
  A failure reported with the profit \<open>- 5\<close> on a total of 10 leaves the total 5: the
  absolute value is subtracted, not the profit itself, which would leave 15.
\<close>

theorem failure_subtracts_magnitude_counterexample:
  "map_option s_totalProfitUSD (getStrategy registry0 ''s1'') = Some 10 \<and>
   map_option s_totalProfitUSD
     (getStrategy (updateStrategyPerformance 5000 ''s1'' False (- 5) registry0) ''s1'') = Some 5 \<and>
   s_totalProfitUSD
     (the (getStrategy (updateStrategyPerformance 5000 ''s1'' False (- 5) registry0) ''s1'')) \<noteq>
   s_totalProfitUSD (the (getStrategy registry0 ''s1'')) - (- 5)"
proof -
  have h: "map_of (strategies registry0) ''s1'' = Some strategy1"
    by (simp add: registry0_strategies)
  have p: "s_totalProfitUSD strategy1 = 10"
    by (simp add: strategy1_def)
  show ?thesis
    using getStrategy_update[OF h, of 5000 False "- 5"] h p
    by (simp add: getStrategy_def)
qed






section \<open>The metrics\<close>

lemma tradeHistory_updateDerivedMetrics:
  "tradeHistory (updateDerivedMetrics now eng) = tradeHistory eng"
  by (simp add: updateDerivedMetrics_def Let_def)

lemma tradeHistory_recordTradeResult:
  "tradeHistory (recordTradeResult now r eng) = tradeHistory eng @ [r]"
  by (simp add: recordTradeResult_def Let_def tradeHistory_updateDerivedMetrics)

lemma tradeHistory_recordAll:
  "tradeHistory (recordAll rs eng) = tradeHistory eng @ map snd rs"
  by (induction rs eng rule: recordAll.induct) (simp_all add: tradeHistory_recordTradeResult)

lemma foldl_executionTime:
  "foldl (\<lambda>sum trade. sum + executionTime trade) a ts = a + sum_list (map executionTime ts)"
  by (induction ts arbitrary: a) simp_all

lemma averageTradeTime_updateDerivedMetrics:
  "tradeHistory eng \<noteq> [] \<Longrightarrow>
   averageTradeTime (metrics (updateDerivedMetrics now eng)) =
     sum_list (map executionTime (tradeHistory eng)) / real (length (tradeHistory eng))"
  by (simp add: updateDerivedMetrics_def Let_def foldl_executionTime)

lemma averageTradeTime_recordTradeResult:
  "averageTradeTime (metrics (recordTradeResult now r eng)) =
     sum_list (map executionTime (tradeHistory eng @ [r]))
       / real (length (tradeHistory eng @ [r]))"
  by (simp add: recordTradeResult_def Let_def averageTradeTime_updateDerivedMetrics)

lemma recordAll_snoc:
  "recordAll (rs @ [(now, r)]) eng = recordTradeResult now r (recordAll rs eng)"
  by (induction rs eng rule: recordAll.induct) simp_all

lemma averageTradeTime_recordAll:
  assumes "rs \<noteq> []"
  shows "averageTradeTime (metrics (recordAll rs (newTradingEngine t0))) =
           sum_list (map executionTime (map snd rs)) / real (length rs)"
proof -
  from assms obtain rs' now r where rs: "rs = rs' @ [(now, r)]"
    by (cases rs rule: rev_cases) auto
  have h: "tradeHistory (recordAll rs' (newTradingEngine t0)) = map snd rs'"
    by (simp add: tradeHistory_recordAll newTradingEngine_def)
  show ?thesis
    unfolding rs recordAll_snoc averageTradeTime_recordTradeResult h by simp
qed

lemma profitFactor_unchanged:
  "totalLossUSD (metrics (recordTradeResult now r eng)) = 0 \<Longrightarrow>
   profitFactor (metrics (recordTradeResult now r eng)) = profitFactor (metrics eng)"
  by (simp add: recordTradeResult_def updateDerivedMetrics_def Let_def split: if_splits)

lemma three_results_metrics:
  "(let m = metrics (recordAll
              [(t1, r1\<lparr>success := True, tr_profitUSD := 100\<rparr>),
               (t2, r2\<lparr>success := False, tr_profitUSD := 40\<rparr>),
               (t3, r3\<lparr>success := True, tr_profitUSD := 60\<rparr>)] (newTradingEngine t0))
    in totalTrades m = 3 \<and> successfulTrades m = 2 \<and> totalProfitUSD m = 160 \<and>
       totalLossUSD m = 40 \<and> netProfitUSD m = 120 \<and> \<bar>successRate m - 66.67\<bar> \<le> 0.01 \<and>
       profitFactor m = 4)"
  by (simp add: recordTradeResult_def updateDerivedMetrics_def newTradingEngine_def
      initializeMetrics_def Let_def)

text \<open>
  Claim C4. From the engine as constructed, recording a success with profit 100, a
  failure with profit 40 and a success with profit 60 gives 3 trades, 2 of them
  successful, total profit 160, total loss 40, net profit 120, a success rate within
  0.01 of 66.67 and the profit factor 4. A record after which the total loss is zero
  (the value \<^verbatim>\<open>updateDerivedMetrics\<close> tests) leaves the profit factor as it was. After
  any non-empty sequence of records the average trade time is the sum of the recorded
  execution times divided by their number.
\<close>

theorem metrics_after_recording:
  "(let m = metrics (recordAll
              [(t1, r1\<lparr>success := True, tr_profitUSD := 100\<rparr>),
               (t2, r2\<lparr>success := False, tr_profitUSD := 40\<rparr>),
               (t3, r3\<lparr>success := True, tr_profitUSD := 60\<rparr>)] (newTradingEngine t0))
    in totalTrades m = 3 \<and> successfulTrades m = 2 \<and> totalProfitUSD m = 160 \<and>
       totalLossUSD m = 40 \<and> netProfitUSD m = 120 \<and> \<bar>successRate m - 66.67\<bar> \<le> 0.01 \<and>
       profitFactor m = 4)
   \<and> (totalLossUSD (metrics (recordTradeResult now r (recordAll rs (newTradingEngine t0)))) = 0
        \<longrightarrow> profitFactor (metrics (recordTradeResult now r (recordAll rs (newTradingEngine t0))))
              = profitFactor (metrics (recordAll rs (newTradingEngine t0))))
   \<and> (rs \<noteq> [] \<longrightarrow>
        averageTradeTime (metrics (recordAll rs (newTradingEngine t0))) =
          sum_list (map executionTime (map snd rs)) / real (length rs))"
  using three_results_metrics[of t1 r1 t2 r2 t3 r3 t0]
    profitFactor_unchanged[of now r "recordAll rs (newTradingEngine t0)"]
    averageTradeTime_recordAll[of rs t0]
  by blast

theorem metrics_after_recording_witness:
  "totalLossUSD (metrics (recordTradeResult 1020 result0
       (recordAll [(1011, result0)] (newTradingEngine 0)))) = 0 \<and>
   profitFactor (metrics (recordTradeResult 1020 result0
       (recordAll [(1011, result0)] (newTradingEngine 0)))) = 0 \<and>
   [(1011, result0)] \<noteq> [] \<and>
   averageTradeTime (metrics (recordAll [(1011, result0)] (newTradingEngine 0))) = 7"
proof -
  have m: "profitFactor (metrics (recordTradeResult 1011 result0 (newTradingEngine 0))) = 0"
    by (simp add: recordTradeResult_def updateDerivedMetrics_def newTradingEngine_def
        initializeMetrics_def result0_def Let_def)
  have l: "totalLossUSD (metrics (recordTradeResult 1020 result0
             (recordAll [(1011, result0)] (newTradingEngine 0)))) = 0"
    by (simp add: recordTradeResult_def updateDerivedMetrics_def newTradingEngine_def
        initializeMetrics_def result0_def Let_def)
  have e: "executionTime result0 = 7"
    by (simp add: result0_def)
  show ?thesis
    using metrics_after_recording[where rs = "[(1011, result0)]" and now = 1020
        and r = result0 and ?t0.0 = 0] l e
    by (simp add: m)
qed

section \<open>The coordinator: one trading cycle\<close>

lemma totalLoss_updateDerivedMetrics:
  "totalLossUSD (metrics (updateDerivedMetrics now eng)) = totalLossUSD (metrics eng)"
  by (simp add: updateDerivedMetrics_def Let_def)

lemma totalLoss_recordTradeResult:
  "totalLossUSD (metrics (recordTradeResult now r eng)) =
     (if success r then totalLossUSD (metrics eng)
      else totalLossUSD (metrics eng) + \<bar>tr_profitUSD r\<bar>)"
  by (simp add: recordTradeResult_def Let_def totalLoss_updateDerivedMetrics)

lemma checkRiskLimits_cong:
  "totalLossUSD (metrics e1) = totalLossUSD (metrics e2) \<Longrightarrow>
   checkRiskLimits cfg e1 opp = checkRiskLimits cfg e2 opp"
  by (simp add: checkRiskLimits_def)

lemma registry_executeOpportunity:
  "registry (executeOpportunity cfg env opp sys) = registry sys"
  by (simp add: executeOpportunity_def Let_def)

text \<open>
  A failed trade is recorded with the profit 0, so no execution changes the total
  loss, and the risk gate answers the same throughout a cycle.
\<close>

lemma totalLoss_executeOpportunity:
  "totalLossUSD (metrics (engine (executeOpportunity cfg env opp sys))) =
     totalLossUSD (metrics (engine sys))"
  by (simp add: executeOpportunity_def Let_def totalLoss_recordTradeResult)

lemma tradeHistory_executeOpportunity:
  "tradeHistory (engine (executeOpportunity cfg env opp sys)) =
     tradeHistory (engine sys) @
       (if checkRiskLimits cfg (engine sys) opp
        then [\<lparr> tr_id = ''trade_'' @ show_int (idTime env), strategyId = ''unknown'',
                 opportunity = opp, success = performTrade env opp,
                 tr_profitUSD = (if performTrade env opp then profitUSD opp else 0),
                 gasUsed = (if performTrade env opp then gasEstimate opp else 0),
                 transactionHash =
                   (if performTrade env opp then Some (''0x'' @ hashText env) else None),
                 executionTime = real_of_int (endTime env - startTime env),
                 tr_timestamp = resultTime env \<rparr>]
        else [])"
  by (simp add: executeOpportunity_def Let_def tradeHistory_recordTradeResult)

lemma opportunities_executeOpportunity:
  "map opportunity (tradeHistory (engine (executeOpportunity cfg env opp sys))) =
     map opportunity (tradeHistory (engine sys)) @
       (if checkRiskLimits cfg (engine sys) opp then [opp] else [])"
  by (simp add: tradeHistory_executeOpportunity)

lemma strategyIds_executeOpportunity:
  "map strategyId (tradeHistory (engine (executeOpportunity cfg env opp sys))) =
     map strategyId (tradeHistory (engine sys)) @
       (if checkRiskLimits cfg (engine sys) opp then [''unknown''] else [])"
  by (simp add: tradeHistory_executeOpportunity)

lemma registry_executeFrom:
  "registry (executeFrom cfg envs i opps sys) = registry sys"
  by (induction opps arbitrary: i sys) (simp_all add: registry_executeOpportunity)

lemma checkRiskLimits_after_execution:
  "checkRiskLimits cfg (engine (executeOpportunity cfg env opp sys)) =
     checkRiskLimits cfg (engine sys)"
  by (rule ext) (rule checkRiskLimits_cong, rule totalLoss_executeOpportunity)

lemma opportunities_executeFrom:
  "map opportunity (tradeHistory (engine (executeFrom cfg envs i opps sys))) =
     map opportunity (tradeHistory (engine sys)) @ filter (checkRiskLimits cfg (engine sys)) opps"
proof (induction opps arbitrary: i sys)
  case Nil
  show ?case by simp
next
  case (Cons opp rest)
  show ?case
    by (simp add: Cons.IH checkRiskLimits_after_execution opportunities_executeOpportunity)
qed

lemma strategyIds_executeFrom:
  "map strategyId (tradeHistory (engine (executeFrom cfg envs i opps sys))) =
     map strategyId (tradeHistory (engine sys)) @
       replicate (length (filter (checkRiskLimits cfg (engine sys)) opps)) ''unknown''"
proof (induction opps arbitrary: i sys)
  case Nil
  show ?case by simp
next
  case (Cons opp rest)
  show ?case
    by (simp add: Cons.IH checkRiskLimits_after_execution strategyIds_executeOpportunity
        replicate_append_same)
qed

lemma cycle_shape:
  "processTradingCycle cfg cyc sys =
     executeFrom cfg (execEnvs cyc) 0
       (highConfidence cfg (fst (evaluateOpportunities cfg (evalEnvs cyc)
               (findOpportunities (strategyDraws cyc) (engine sys)) (evaluationHistory sys))))
       (sys\<lparr>evaluationHistory :=
              snd (evaluateOpportunities cfg (evalEnvs cyc)
               (findOpportunities (strategyDraws cyc) (engine sys)) (evaluationHistory sys))\<rparr>)"
  by (simp add: processTradingCycle_def Let_def split: prod.split)

lemma filter_highConfidence:
  "filter (checkRiskLimits cfg eng) (highConfidence cfg opps) =
     filter (\<lambda>opp. js_ge (confidence opp) (confidenceThreshold cfg) \<and>
                   checkRiskLimits cfg eng opp) opps"
  by (simp add: highConfidence_def conj_commute)

text \<open>
  The evaluation loop revises every opportunity it is given, in order, each with the
  environment of its position.
\<close>

lemma evaluateFrom_map:
  "fst (evaluateFrom cfg envs i opps hist) =
     map (\<lambda>(j, opp). revised opp (evaluate cfg (envs j) opp)) (enumerate i opps)"
proof (induction opps arbitrary: i hist)
  case Nil
  show ?case by simp
next
  case (Cons opp rest)
  have "fst (evaluateFrom cfg envs (Suc i) rest h) =
          map (\<lambda>(j, opp). revised opp (evaluate cfg (envs j) opp)) (enumerate (Suc i) rest)"
    for h
    by (rule Cons.IH)
  then show ?case
    by (simp add: evaluateOpportunity_def Let_def split_beta)
qed

lemma evaluateOpportunities_fst:
  "fst (evaluateOpportunities cfg envs opps hist) =
     js_sort byConfidence
       (map (\<lambda>(j, opp). revised opp (evaluate cfg (envs j) opp)) (enumerate 0 opps))"
proof -
  have "fst (evaluateOpportunities cfg envs opps hist) =
          js_sort byConfidence (fst (evaluateFrom cfg envs 0 opps hist))"
    by (simp add: evaluateOpportunities_def split: prod.split)
  then show ?thesis
    by (simp only: evaluateFrom_map)
qed

text \<open>
  In a cycle the comparator of the sort is consistent: the strategies yield finite
  confidences, the evaluation keeps them finite, and on finite confidences the sort
  of the model is the stable sort by descending confidence.
\<close>

lemma js_insert_finite:
  assumes "\<forall>z \<in> set (x # ys). \<exists>c. confidence z = Fin c"
  shows "js_insert byConfidence x ys = insort_key (\<lambda>opp. - fin_value (confidence opp)) x ys"
  using assms
proof (induction ys)
  case Nil
  show ?case by simp
next
  case (Cons y ys)
  from Cons.prems obtain cx cy where c: "confidence x = Fin cx" "confidence y = Fin cy"
    by auto
  from Cons.prems have "\<forall>z \<in> set (x # ys). \<exists>c. confidence z = Fin c"
    by simp
  then have ih: "js_insert byConfidence x ys =
                   insort_key (\<lambda>opp. - fin_value (confidence opp)) x ys"
    by (rule Cons.IH)
  have "js_gt (byConfidence x y) 0 =
          (\<not> - fin_value (confidence x) \<le> - fin_value (confidence y))"
    by (auto simp: c byConfidence_def js_sub_def fin_value_def)
  then show ?case
    by (simp add: ih)
qed

lemma js_sort_finite:
  assumes "\<forall>z \<in> set xs. \<exists>c. confidence z = Fin c"
  shows "js_sort byConfidence xs = sort_key (\<lambda>opp. - fin_value (confidence opp)) xs"
  using assms
proof (induction xs)
  case Nil
  show ?case by (simp add: js_sort_def)
next
  case (Cons x xs)
  from Cons.prems have rest: "\<forall>z \<in> set xs. \<exists>c. confidence z = Fin c"
    by simp
  then have ih: "js_sort byConfidence xs = sort_key (\<lambda>opp. - fin_value (confidence opp)) xs"
    by (rule Cons.IH)
  from Cons.prems rest
  have "\<forall>z \<in> set (x # sort_key (\<lambda>opp. - fin_value (confidence opp)) xs).
          \<exists>c. confidence z = Fin c"
    by simp
  then have "js_insert byConfidence x (sort_key (\<lambda>opp. - fin_value (confidence opp)) xs) =
          insort_key (\<lambda>opp. - fin_value (confidence opp)) x
            (sort_key (\<lambda>opp. - fin_value (confidence opp)) xs)"
    by (rule js_insert_finite)
  with ih show ?case
    by (simp add: js_sort_def)
qed

lemma executeStrategy_finite:
  "opp \<in> set (executeStrategy d strategy) \<Longrightarrow> \<exists>c. confidence opp = Fin c"
  by (auto simp: executeStrategy_def split: if_splits)

lemma findOpportunitiesFrom_finite:
  "opp \<in> set (findOpportunitiesFrom draws i ss) \<Longrightarrow> \<exists>c. confidence opp = Fin c"
  by (induction ss arbitrary: i) (auto dest: executeStrategy_finite)

lemma revised_finite:
  assumes "confidence opp = Fin c"
  shows "\<exists>c'. confidence (revised opp (evaluate cfg env opp)) = Fin c'"
proof -
  from assms have "runningConfidence env opp \<noteq> NaN"
    by (simp add: runningConfidence_NaN)
  then have "in_unit_interval (ev_confidence (evaluate cfg env opp))"
    by (simp add: confidence_evaluate clamp_unit_interval)
  then show ?thesis
    by (simp add: revised_def in_unit_interval_def split: JSNum.splits)
qed

lemma cycle_sort_is_stable_sort:
  "fst (evaluateOpportunities cfg envs (findOpportunities draws eng) hist) =
     sort_key (\<lambda>opp. - fin_value (confidence opp))
       (map (\<lambda>(j, opp). revised opp (evaluate cfg (envs j) opp))
          (enumerate 0 (findOpportunities draws eng)))"
proof -
  have "\<forall>z \<in> set (map (\<lambda>(j, opp). revised opp (evaluate cfg (envs j) opp))
                    (enumerate 0 (findOpportunities draws eng))).
          \<exists>c. confidence z = Fin c"
  proof
    fix z
    assume "z \<in> set (map (\<lambda>(j, opp). revised opp (evaluate cfg (envs j) opp))
                        (enumerate 0 (findOpportunities draws eng)))"
    then obtain j opp where z: "z = revised opp (evaluate cfg (envs j) opp)"
      and "(j, opp) \<in> set (enumerate 0 (findOpportunities draws eng))"
      by auto
    then have "opp \<in> set (findOpportunities draws eng)"
      by (auto simp: in_set_enumerate_eq)
    then obtain c where "confidence opp = Fin c"
      unfolding findOpportunities_def by (auto dest: findOpportunitiesFrom_finite)
    then show "\<exists>c. confidence z = Fin c"
      unfolding z by (rule revised_finite)
  qed
  then show ?thesis
    unfolding evaluateOpportunities_fst by (rule js_sort_finite)
qed

lemma opportunities_cycle:
  "map opportunity (tradeHistory (engine (processTradingCycle cfg cyc sys))) =
     map opportunity (tradeHistory (engine sys)) @ submitted cfg cyc sys"
  unfolding cycle_shape opportunities_executeFrom submitted_def cycle_sort_is_stable_sort
  by (simp add: filter_highConfidence revised_def)

lemma registry_cycle: "registry (processTradingCycle cfg cyc sys) = registry sys"
  unfolding cycle_shape registry_executeFrom by simp

lemma strategyIds_cycle:
  "map strategyId (tradeHistory (engine (processTradingCycle cfg cyc sys))) =
     map strategyId (tradeHistory (engine sys)) @
       replicate (length (submitted cfg cyc sys)) ''unknown''"
  unfolding cycle_shape strategyIds_executeFrom submitted_def cycle_sort_is_stable_sort
  by (simp add: filter_highConfidence revised_def)

text \<open>
  The minimum profit threshold enters the recommendation and nothing else: what a
  cycle submits does not depend on it.
\<close>

lemma submitted_minProfit:
  "submitted (cfg\<lparr>minProfitThresholdUSD := m\<rparr>) cyc sys = submitted cfg cyc sys"
proof -
  have c: "ev_confidence (evaluate (cfg\<lparr>minProfitThresholdUSD := m\<rparr>) env opp) =
             ev_confidence (evaluate cfg env opp)" for env opp
    by (simp add: confidence_evaluate)
  have a: "adjustedProfit (evaluate (cfg\<lparr>minProfitThresholdUSD := m\<rparr>) env opp) =
             adjustedProfit (evaluate cfg env opp)" for env opp
    by (simp add: adjustedProfit_evaluate)
  have k: "checkRiskLimits (cfg\<lparr>minProfitThresholdUSD := m\<rparr>) eng opp =
             checkRiskLimits cfg eng opp" for eng opp
    by (simp add: checkRiskLimits_def)
  show ?thesis
    unfolding submitted_def by (simp add: c a k cong: if_cong)
qed

text \<open>The example cycle, step by step.\<close>

lemma engine0:
  "te_activeStrategies (engine system0) = [(''s1'', strategy1), (''s2'', strategy2)]"
  by (simp add: system0_def initializeStrategies_def newTradingEngine_def
      getAllEnabledStrategies_def registry0_strategies map_values_def strategy1_def
      strategy2_def)

lemma find0: "findOpportunities (strategyDraws cycle0) (engine system0) = [opportunity0]"
  by (simp add: findOpportunities_def engine0 map_values_def cycle0_def executeStrategy_def
      draws0_def opportunity0_def strategy1_def strategy2_def show_int_def)

lemma revised_evaluate0:
  "revised opportunity0 (evaluate config0 evalEnv0 opportunity0) = revised0"
  unfolding evaluate0 by (simp add: revised_def revised0_def)

lemma evaluated0:
  "evaluateOpportunities config0 (evalEnvs cycle0) [opportunity0] (evaluationHistory system0) =
     ([revised0],
      (evaluationHistory system0)
        (opp_id opportunity0 \<mapsto> evaluate config0 evalEnv0 opportunity0))"
  by (simp add: evaluateOpportunities_def evaluateOpportunity_def revised_evaluate0 cycle0_def
      js_sort_def Let_def)

lemma permitted0: "checkRiskLimits config0 (engine system0) revised0"
  by (simp add: config0_def checkRiskLimits_def system0_def initializeStrategies_def
      newTradingEngine_def initializeMetrics_def revised0_def)

lemma confident0: "js_ge (confidence revised0) (confidenceThreshold config0)"
  by (simp add: config0_def revised0_def)

lemma history0:
  "tradeHistory (engine (processTradingCycle config0 cycle0 system0)) = [result0]"
proof -
  have hc: "highConfidence config0 [revised0] = [revised0]"
    using confident0 by (simp add: highConfidence_def)
  have empty: "tradeHistory (engine system0) = []"
    by (simp add: system0_def initializeStrategies_def newTradingEngine_def)
  have x: "execEnvs cycle0 0 = execEnv0"
    by (simp add: cycle0_def)
  have "tradeHistory (engine (executeOpportunity config0 execEnv0 revised0
           (system0\<lparr>evaluationHistory := h\<rparr>))) = [result0]" for h
    unfolding tradeHistory_executeOpportunity
    using permitted0
    by (simp add: empty result0_def execEnv0_def performTrade_def show_int_def
        revised0_def opportunity0_def)
  then show ?thesis
    unfolding cycle_shape find0 evaluated0 fst_conv snd_conv hc
    by (simp add: x)
qed

text \<open>
  Claim C10. After a cycle, the opportunities of the recorded trades are those recorded
  before it followed by what the cycle submits: every opportunity that the strategies
  yield, revised by the confidence and the adjusted profit of its evaluation, whose
  confidence reaches the threshold and which passes the risk limits, in the order of
  descending confidence. The recommendation does not enter: the minimum profit
  threshold, which only the recommendation reads, does not change what a cycle
  executes. In the example cycle the one opportunity that the strategies yield is
  evaluated to SKIP and is executed; with the minimum profit threshold 1 it is
  evaluated to EXECUTE, and the same trade is recorded.
\<close>

theorem cycle_ignores_recommendation:
  "map opportunity (tradeHistory (engine (processTradingCycle cfg cyc sys))) =
     map opportunity (tradeHistory (engine sys)) @ submitted cfg cyc sys
   \<and> map opportunity
         (tradeHistory (engine (processTradingCycle (cfg\<lparr>minProfitThresholdUSD := m\<rparr>) cyc sys))) =
       map opportunity (tradeHistory (engine (processTradingCycle cfg cyc sys)))
   \<and> findOpportunities (strategyDraws cycle0) (engine system0) = [opportunity0]
   \<and> recommendation (fst (evaluateOpportunity config0 (evalEnvs cycle0 0)
                             (evaluationHistory system0) opportunity0)) = SKIP
   \<and> recommendation (fst (evaluateOpportunity (config0\<lparr>minProfitThresholdUSD := 1\<rparr>)
                             (evalEnvs cycle0 0) (evaluationHistory system0) opportunity0))
       = EXECUTE
   \<and> map opportunity (tradeHistory (engine (processTradingCycle config0 cycle0 system0))) =
       [revised opportunity0
          (fst (evaluateOpportunity config0 (evalEnvs cycle0 0)
                  (evaluationHistory system0) opportunity0))]
   \<and> map success (tradeHistory (engine (processTradingCycle config0 cycle0 system0))) = [True]"
proof -
  have e: "evalEnvs cycle0 0 = evalEnv0"
    by (simp add: cycle0_def)
  have s: "recommendation (evaluate config0 evalEnv0 opportunity0) = SKIP"
    by (simp add: evaluate0)
  have x: "recommendation (evaluate (config0\<lparr>minProfitThresholdUSD := 1\<rparr>) evalEnv0 opportunity0)
             = EXECUTE"
    by (simp add: evaluate_def neuralNetworkStep_def predictProfit_def js_div_def js_sub_def
        analyzeMarketConditions_def assessRisk_def optimizeGasCosts_def makeRecommendation_def
        config0_def evalEnv0_def opportunity0_def Let_def)
  have o: "opportunity result0 = revised0" "success result0"
    by (simp_all add: result0_def)
  have same: "map opportunity
         (tradeHistory (engine (processTradingCycle (cfg\<lparr>minProfitThresholdUSD := m\<rparr>) cyc sys))) =
       map opportunity (tradeHistory (engine (processTradingCycle cfg cyc sys)))"
    by (simp only: opportunities_cycle submitted_minProfit)
  show ?thesis
    unfolding e evaluateOpportunity_fst history0 revised_evaluate0
    using opportunities_cycle[of cfg cyc sys] same find0 s x o
    by simp
qed

text \<open>
  Claim C7 as the code has it. Every trade result that \<^verbatim>\<open>executeOpportunity\<close> records
  carries the strategy id \<open>unknown\<close>, and neither one execution nor a whole cycle
  changes the strategy registry: no performance statistics are updated by an execution
  result.
\<close>

theorem execution_tags_unknown_and_keeps_registry:
  "map strategyId (tradeHistory (engine (executeOpportunity cfg env opp sys))) =
     map strategyId (tradeHistory (engine sys)) @
       (if checkRiskLimits cfg (engine sys) opp then [''unknown''] else [])
   \<and> registry (executeOpportunity cfg env opp sys) = registry sys
   \<and> map strategyId (tradeHistory (engine (processTradingCycle cfg cyc sys))) =
       map strategyId (tradeHistory (engine sys)) @
         replicate (length (submitted cfg cyc sys)) ''unknown''
   \<and> registry (processTradingCycle cfg cyc sys) = registry sys"
  using strategyIds_executeOpportunity[of cfg env opp sys]
    registry_executeOpportunity[of cfg env opp sys]
    strategyIds_cycle[of cfg cyc sys] registry_cycle[of cfg cyc sys]
  by simp

text \<open>
  In the example cycle the opportunity of strategy \<open>s1\<close> is executed with success and
  recorded, and afterwards the registry holds \<open>s1\<close> with the statistics it had: zero
  trades, success rate 0, total profit 10.
\<close>

theorem stats_not_updated_counterexample:
  "map opp_id (findOpportunities (strategyDraws cycle0) (engine system0)) = [''s1_1000'']
   \<and> map success (tradeHistory (engine (processTradingCycle config0 cycle0 system0))) = [True]
   \<and> map tr_profitUSD (tradeHistory (engine (processTradingCycle config0 cycle0 system0)))
       = [1.5]
   \<and> getStrategy (registry system0) ''s1'' = Some strategy1
   \<and> getStrategy (registry (processTradingCycle config0 cycle0 system0)) ''s1'' = Some strategy1
   \<and> s_totalTrades strategy1 = 0 \<and> s_successRate strategy1 = 0
   \<and> s_totalProfitUSD strategy1 = 10"
proof -
  have g: "getStrategy (registry system0) ''s1'' = Some strategy1"
    by (simp add: getStrategy_def system0_def registry0_strategies)
  have i: "opp_id opportunity0 = ''s1_1000''"
    by (simp add: opportunity0_def)
  have r: "success result0" "tr_profitUSD result0 = 1.5"
    by (simp_all add: result0_def)
  have s: "s_totalTrades strategy1 = 0" "s_successRate strategy1 = 0"
    "s_totalProfitUSD strategy1 = 10"
    by (simp_all add: strategy1_def)
  show ?thesis
    unfolding find0 history0 registry_cycle
    using g i r s by simp
qed

end
